theory Spec2Isabelle
  imports Complex_Main
begin

section \<open>Data model\<close>

text \<open>
  Documents of the collections the ledger works on. An ObjectId is a natural number.
  Quantities and thresholds are integers (the validators demand it of the quantity and
  of the minimum threshold; the maximum threshold is taken as one), a cost is a rational
  number. A numeric field of a request body holds the number that the value sent
  converts to; how the quantity of a transaction was sent, as a number or as a string, is
  kept beside it, because \<open>+\<close> tells the two apart. Fields that play no part in the
  quantity ledger (description, supplier, location, barcode, notes, timestamps) are left
  out.
\<close>

type_synonym objectId = nat

text \<open>
  \<open>models/Inventory.js\<close>, \<open>inventorySchema\<close>. An absent required string is the
  empty string (mongoose's \<open>required\<close> rejects both); an absent category is \<open>None\<close>.
\<close>

record inventory =
  item_id :: objectId
  name :: string
  category :: "objectId option"
  school :: objectId
  quantity :: int
  unit :: string
  minThreshold :: int
  maxThreshold :: int
  cost :: rat
  isActive :: bool

text \<open>\<open>models/Transaction.js\<close>, \<open>transactionSchema\<close>.\<close>

record transaction =
  tx_type :: string
  tx_inventory :: objectId
  tx_school :: objectId
  tx_user :: objectId
  tx_quantity :: int
  previousQuantity :: int
  newQuantity :: int
  tx_reason :: "string option"
  tx_cost :: rat

section \<open>JavaScript numbers and strings\<close>

text \<open>
  A JavaScript number is a double. The integers of magnitude up to \<open>2^53\<close> are
  doubles; beyond, a double keeps 53 significant bits and the result of an addition or
  subtraction of two integer doubles is the exact result rounded to the nearest double,
  ties to the even significand. Numbers here are finite, and \<open>String\<close> is given
  for the integers that print as their digits, those below \<open>10^21\<close> in magnitude.
\<close>

definition safeInteger :: "int \<Rightarrow> bool" where
  "safeInteger n \<longleftrightarrow> \<bar>n\<bar> \<le> 2 ^ 53 - 1"

function bitLength :: "int \<Rightarrow> nat" where
  "bitLength n = (if n \<le> 0 then 0 else Suc (bitLength (n div 2)))"
  by pat_completeness auto
termination
  by (relation "measure nat") auto

declare bitLength.simps [simp del]

definition toDouble :: "int \<Rightarrow> int" where
  "toDouble n =
     (if \<bar>n\<bar> \<le> 2 ^ 53 then n
      else
        (let m = \<bar>n\<bar>;
             e = bitLength m - 53;
             q = m div 2 ^ e;
             r = m mod 2 ^ e;
             half = 2 ^ (e - 1);
             q' = (if half < r \<or> (r = half \<and> odd q) then q + 1 else q)
         in sgn n * (q' * 2 ^ e)))"

text \<open>\<open>String(n)\<close> of an integer: its decimal digits, after a minus sign if negative.\<close>

definition digitChar :: "int \<Rightarrow> char" where
  "digitChar d = char_of (48 + d)"

function decimal :: "int \<Rightarrow> string" where
  "decimal n = (if n < 10 then [digitChar n] else decimal (n div 10) @ [digitChar (n mod 10)])"
  by pat_completeness auto
termination
  by (relation "measure nat") auto

declare decimal.simps [simp del]

definition numberToString :: "int \<Rightarrow> string" where
  "numberToString n = (if n < 0 then CHR ''-'' # decimal (- n) else decimal n)"

text \<open>
  \<open>Number(s)\<close> as mongoose's cast applies it to a string of signs and digits: the
  integer the text denotes, rounded to a double, or \<open>None\<close> where the text is no
  number (\<open>NaN\<close>, a cast error) or empty (\<open>null\<close>).
\<close>

definition isDigit :: "char \<Rightarrow> bool" where
  "isDigit c \<longleftrightarrow> 48 \<le> (of_char c :: int) \<and> (of_char c :: int) \<le> 57"

fun digitsValue :: "string \<Rightarrow> int \<Rightarrow> int option" where
  "digitsValue [] acc = Some acc"
| "digitsValue (c # cs) acc =
     (if isDigit c then digitsValue cs (10 * acc + (of_char c - 48)) else None)"

definition parseInteger :: "string \<Rightarrow> int option" where
  "parseInteger s =
     (case s of
        [] \<Rightarrow> None
      | c # cs \<Rightarrow>
          if c = CHR ''-'' then
            (if cs = [] then None else map_option uminus (digitsValue cs 0))
          else if c = CHR ''+'' then
            (if cs = [] then None else digitsValue cs 0)
          else digitsValue s 0)"

datatype jsValue = JsNumber int | JsString string

definition castNumber :: "jsValue \<Rightarrow> int option" where
  "castNumber v =
     (case v of
        JsNumber n \<Rightarrow> Some n
      | JsString s \<Rightarrow> map_option toDouble (parseInteger s))"

section \<open>Threshold classifier\<close>

text \<open>The virtual \<open>stockStatus\<close> of \<open>models/Inventory.js\<close> (lines 80--85).\<close>

definition stockStatus :: "inventory \<Rightarrow> string" where
  "stockStatus this =
     (if quantity this \<le> 0 then ''out-of-stock''
      else if quantity this \<le> minThreshold this then ''low-stock''
      else if quantity this \<ge> maxThreshold this then ''overstock''
      else ''in-stock'')"

section \<open>Request validation (express-validator chains)\<close>

text \<open>
  The sanitizer \<open>trim()\<close> removes leading and trailing white space, the class
  \<open>\\s\<close> of regular expressions. A character is a code unit below 256; of that
  class these are tab, line feed, vertical tab, form feed, carriage return, space and
  the no-break space U+00A0.
\<close>

definition isWhitespace :: "char \<Rightarrow> bool" where
  "isWhitespace c \<longleftrightarrow>
     c \<in> set [CHR '' '', CHR 0x09, CHR 0x0A, CHR 0x0B, CHR 0x0C, CHR 0x0D, CHR 0xA0]"

definition trim :: "string \<Rightarrow> string" where
  "trim s = rev (dropWhile isWhitespace (rev (dropWhile isWhitespace s)))"

text \<open>
  The body of \<open>POST /inventory\<close> and \<open>PUT /inventory/:id\<close>. The fields whose
  validator is not \<open>optional()\<close> are plain values (a request without them is rejected
  like one with an empty string or a negative quantity); the others may be absent.
\<close>

record inventoryBody =
  b_name :: string
  b_category :: "objectId option"
  b_quantity :: int
  b_unit :: string
  b_minThreshold :: "int option"
  b_maxThreshold :: "int option"
  b_cost :: "rat option"
  b_isActive :: "bool option"

text \<open>
  \<open>validateInventory\<close> (middleware/validation, lines 44--65): the messages of the
  failing chains in order, or the sanitized body.
\<close>

definition validateInventory :: "inventoryBody \<Rightarrow> string list + inventoryBody" where
  "validateInventory b =
     (let errors =
            (if 1 \<le> length (trim (b_name b)) then [] else [''Item name is required''])
          @ (if 0 \<le> b_quantity b then [] else [''Quantity must be a non-negative integer''])
          @ (if 1 \<le> length (trim (b_unit b)) then [] else [''Unit is required''])
          @ (case b_minThreshold b of
               None \<Rightarrow> []
             | Some m \<Rightarrow>
                 if 0 \<le> m then [] else [''Minimum threshold must be a non-negative integer''])
          @ (case b_cost b of
               None \<Rightarrow> []
             | Some c \<Rightarrow> if 0 \<le> c then [] else [''Cost must be a non-negative number''])
      in if errors = []
         then Inr (b\<lparr>b_name := trim (b_name b), b_unit := trim (b_unit b)\<rparr>)
         else Inl errors)"

text \<open>
  The body of \<open>POST /transactions\<close>. \<open>tb_inventory\<close> is a well-formed ObjectId,
  so the \<open>isMongoId\<close> chain has nothing to reject. \<open>tb_quantity\<close> is the number
  the quantity converts to, \<open>tb_quantityForm\<close> how it was sent: as a JSON number, or
  as a string (a urlencoded body, or a JSON string) made of an optional \<open>+\<close>, some
  leading zeros and the digits. \<open>isInt\<close> tests the text and does not convert, so
  the handler receives the value as it was sent.
\<close>

datatype quantityForm = AsNumber | AsString bool nat

record transactionBody =
  tb_type :: string
  tb_inventory :: objectId
  tb_quantity :: int
  tb_quantityForm :: quantityForm
  tb_reason :: "string option"
  tb_cost :: "rat option"

definition quantityText :: "int \<Rightarrow> bool \<Rightarrow> nat \<Rightarrow> string" where
  "quantityText n withPlus zeros =
     (if n < 0 then ''-'' else if withPlus then ''+'' else [])
     @ replicate zeros (CHR ''0'') @ decimal \<bar>n\<bar>"

text \<open>\<open>req.body.quantity\<close>, the value the handler reads.\<close>

definition sentQuantity :: "transactionBody \<Rightarrow> jsValue" where
  "sentQuantity b =
     (case tb_quantityForm b of
        AsNumber \<Rightarrow> JsNumber (tb_quantity b)
      | AsString withPlus zeros \<Rightarrow> JsString (quantityText (tb_quantity b) withPlus zeros))"

definition transactionTypes :: "string list" where
  "transactionTypes = [''check-in'', ''check-out'', ''adjustment'', ''transfer'']"

text \<open>\<open>validateTransaction\<close> (middleware/validation, lines 79--95).\<close>

definition validateTransaction :: "transactionBody \<Rightarrow> string list + transactionBody" where
  "validateTransaction b =
     (let errors =
            (if tb_type b \<in> set transactionTypes then [] else [''Invalid transaction type''])
          @ (if 1 \<le> tb_quantity b then [] else [''Quantity must be a positive integer''])
          @ (case tb_reason b of
               None \<Rightarrow> []
             | Some r \<Rightarrow>
                 if length (trim r) \<le> 500 then []
                 else [''Reason must be less than 500 characters''])
      in if errors = []
         then Inr (b\<lparr>tb_reason := map_option trim (tb_reason b)\<rparr>)
         else Inl errors)"

section \<open>The store\<close>

text \<open>
  The category documents that \<open>$lookup\<close> reads (the Category model is not among the
  sources; only the three fields the report projects are kept).
\<close>

record categoryDoc =
  cat_id :: objectId
  cat_name :: string
  cat_color :: string

record db =
  inventories :: "inventory list"
  transactions :: "transaction list"
  categories :: "categoryDoc list"

text \<open>\<open>req.user\<close>, as the auth middleware provides it.\<close>

record reqUser =
  user_id :: objectId
  user_school :: objectId

text \<open>
  Schema validation run by \<open>save()\<close>: the \<open>required\<close>, \<open>min\<close> and \<open>enum\<close>
  validators of the two schemas.
\<close>

definition validateInventoryDoc :: "inventory \<Rightarrow> bool" where
  "validateInventoryDoc i \<longleftrightarrow>
     name i \<noteq> [] \<and> category i \<noteq> None \<and> 0 \<le> quantity i \<and> unit i \<noteq> [] \<and> 0 \<le> cost i"

definition validateTransactionDoc :: "transaction \<Rightarrow> bool" where
  "validateTransactionDoc t \<longleftrightarrow> tx_type t \<in> set transactionTypes \<and> 0 \<le> tx_cost t"

text \<open>\<open>save()\<close> of a new transaction: \<open>None\<close> is the rejected promise.\<close>

definition saveTransaction :: "transaction \<Rightarrow> db \<Rightarrow> db option" where
  "saveTransaction t s =
     (if validateTransactionDoc t then Some (s\<lparr>transactions := transactions s @ [t]\<rparr>)
      else None)"

text \<open>\<open>save()\<close> of a document loaded from the collection: it replaces the stored one.\<close>

definition saveInventory :: "inventory \<Rightarrow> db \<Rightarrow> db option" where
  "saveInventory d s =
     (if validateInventoryDoc d
      then Some (s\<lparr>inventories :=
                     map (\<lambda>i. if item_id i = item_id d then d else i) (inventories s)\<rparr>)
      else None)"

text \<open>\<open>save()\<close> of a new item: the insert fails on a duplicate \<open>_id\<close>.\<close>

definition insertInventory :: "inventory \<Rightarrow> db \<Rightarrow> db option" where
  "insertInventory d s =
     (if validateInventoryDoc d \<and> item_id d \<notin> item_id ` set (inventories s)
      then Some (s\<lparr>inventories := inventories s @ [d]\<rparr>)
      else None)"

definition getItem :: "db \<Rightarrow> objectId \<Rightarrow> inventory option" where
  "getItem s oid = find (\<lambda>i. item_id i = oid) (inventories s)"

section \<open>Responses\<close>

text \<open>
  The item routes answer with the item after \<open>populate('category', 'name color')\<close>:
  the item is paired with the category document found for it, if any. \<open>Created\<close>
  carries the transaction as it is stored; the answer shows it with the names of its item
  and user filled in. \<open>InsufficientStock\<close> carries the available quantity and the
  number the requested one converts to.
\<close>

datatype response =
    Created transaction
  | ItemCreated inventory "categoryDoc option"
  | ItemUpdated inventory "categoryDoc option"
  | ItemDeleted
  | ValidationFailed "string list"
  | NotFound
  | InsufficientStock int int
  | InvalidType
  | ServerError string

fun statusCode :: "response \<Rightarrow> nat" where
  "statusCode (Created t) = 201"
| "statusCode (ItemCreated i c) = 201"
| "statusCode (ItemUpdated i c) = 200"
| "statusCode ItemDeleted = 200"
| "statusCode (ValidationFailed es) = 400"
| "statusCode NotFound = 404"
| "statusCode (InsufficientStock available requested) = 400"
| "statusCode InvalidType = 400"
| "statusCode (ServerError m) = 500"

fun message :: "response \<Rightarrow> string" where
  "message (Created t) = ''Transaction created successfully''"
| "message (ItemCreated i c) = ''Inventory item created successfully''"
| "message (ItemUpdated i c) = ''Inventory item updated successfully''"
| "message ItemDeleted = ''Inventory item deleted successfully''"
| "message (ValidationFailed es) = ''Validation failed''"
| "message NotFound = ''Inventory item not found''"
| "message (InsufficientStock available requested) = ''Insufficient stock''"
| "message InvalidType = ''Invalid transaction type''"
| "message (ServerError m) = m"

section \<open>Ledger engine: \<open>POST /transactions\<close>\<close>

text \<open>
  The \<open>switch (type)\<close> of \<open>routes/transactions.js\<close> (lines 130--152): the early
  response, or \<open>(newQuantity, transactionQuantity)\<close>. \<open>qty\<close> is the number the
  quantity converts to and \<open>sent\<close> the value itself. With a string,
  \<open>previousQuantity + quantity\<close> concatenates; \<open><\<close> and \<open>-\<close> convert it. The
  transaction quantity is given as mongoose casts it, and so is the new quantity of an
  adjustment, which is the quantity sent.
\<close>

definition switchType :: "string \<Rightarrow> int \<Rightarrow> int \<Rightarrow> jsValue \<Rightarrow> response + jsValue \<times> int" where
  "switchType type previous qty sent =
     (if type = ''check-in'' then
        (case sent of
           JsNumber n \<Rightarrow> Inr (JsNumber (toDouble (previous + n)), qty)
         | JsString text \<Rightarrow> Inr (JsString (numberToString previous @ text), qty))
      else if type = ''check-out'' then
        (if previous < qty then Inl (InsufficientStock previous qty)
         else Inr (JsNumber (toDouble (previous - qty)), - qty))
      else if type = ''adjustment'' then Inr (JsNumber qty, toDouble (qty - previous))
      else Inl InvalidType)"

text \<open>
  The handler behind \<open>validateTransaction\<close> (lines 110--191). A new quantity that
  mongoose cannot cast to a number makes both saves fail. Otherwise \<open>Promise.all\<close>
  starts both saves; each one writes when its own validation passes, whatever the other
  does, and the handler answers 500 when either promise is rejected.
\<close>

definition createTransaction :: "reqUser \<Rightarrow> transactionBody \<Rightarrow> db \<Rightarrow> response \<times> db" where
  "createTransaction u body s =
     (case validateTransaction body of
        Inl errors \<Rightarrow> (ValidationFailed errors, s)
      | Inr b \<Rightarrow>
          (case find (\<lambda>i. item_id i = tb_inventory b \<and> school i = user_school u \<and> isActive i)
                  (inventories s) of
             None \<Rightarrow> (NotFound, s)
           | Some inventory \<Rightarrow>
               (case switchType (tb_type b) (quantity inventory) (tb_quantity b)
                       (sentQuantity b) of
                  Inl r \<Rightarrow> (r, s)
                | Inr (newQuantityValue, transactionQuantity) \<Rightarrow>
                    (case castNumber newQuantityValue of
                       None \<Rightarrow> (ServerError ''Failed to create transaction'', s)
                     | Some newQ \<Rightarrow>
                         (let t = \<lparr>tx_type = tb_type b, tx_inventory = tb_inventory b,
                                   tx_school = user_school u, tx_user = user_id u,
                                   tx_quantity = transactionQuantity,
                                   previousQuantity = quantity inventory,
                                   newQuantity = newQ,
                                   tx_reason = tb_reason b,
                                   tx_cost = (case tb_cost b of None \<Rightarrow> 0 | Some c \<Rightarrow> c)\<rparr>;
                              inventory' = inventory\<lparr>quantity := newQ\<rparr>;
                              r1 = saveTransaction t s;
                              s1 = (case r1 of None \<Rightarrow> s | Some s' \<Rightarrow> s');
                              r2 = saveInventory inventory' s1;
                              s2 = (case r2 of None \<Rightarrow> s1 | Some s' \<Rightarrow> s')
                          in (if r1 \<noteq> None \<and> r2 \<noteq> None then Created t
                              else ServerError ''Failed to create transaction'', s2))))))"

section \<open>Item routes: \<open>POST /inventory\<close>, \<open>PUT /inventory/:id\<close>, \<open>DELETE /inventory/:id\<close>\<close>

text \<open>
  \<open>new Inventory({...req.body, school})\<close>: the schema's defaults fill the absent
  fields; \<open>oid\<close> is the ObjectId the driver generates.
\<close>

definition newInventory :: "objectId \<Rightarrow> objectId \<Rightarrow> inventoryBody \<Rightarrow> inventory" where
  "newInventory oid sch b =
     \<lparr>item_id = oid, name = trim (b_name b), category = b_category b, school = sch,
      quantity = b_quantity b, unit = b_unit b,
      minThreshold = (case b_minThreshold b of None \<Rightarrow> 5 | Some m \<Rightarrow> m),
      maxThreshold = (case b_maxThreshold b of None \<Rightarrow> 100 | Some m \<Rightarrow> m),
      cost = (case b_cost b of None \<Rightarrow> 0 | Some c \<Rightarrow> c),
      isActive = (case b_isActive b of None \<Rightarrow> True | Some a \<Rightarrow> a)\<rparr>"

text \<open>
  \<open>populate('category', 'name color')\<close>: the category document the item refers
  to, or none.
\<close>

definition populateCategory :: "db \<Rightarrow> inventory \<Rightarrow> categoryDoc option" where
  "populateCategory s item =
     (case category item of
        None \<Rightarrow> None
      | Some k \<Rightarrow> find (\<lambda>c. cat_id c = k) (categories s))"

text \<open>\<open>item.cost || 0\<close>.\<close>

definition costOrZero :: "rat \<Rightarrow> rat" where
  "costOrZero c = (if c = 0 then 0 else c)"

text \<open>\<open>POST /inventory\<close> (lines 108--143).\<close>

definition createInventory :: "reqUser \<Rightarrow> objectId \<Rightarrow> inventoryBody \<Rightarrow> db \<Rightarrow> response \<times> db" where
  "createInventory u oid body s =
     (case validateInventory body of
        Inl errors \<Rightarrow> (ValidationFailed errors, s)
      | Inr b \<Rightarrow>
          (let item = newInventory oid (user_school u) b in
           case insertInventory item s of
             None \<Rightarrow> (ServerError ''Failed to create inventory item'', s)
           | Some s1 \<Rightarrow>
               if 0 < quantity item then
                 (let t = \<lparr>tx_type = ''check-in'', tx_inventory = item_id item,
                           tx_school = user_school u, tx_user = user_id u,
                           tx_quantity = quantity item, previousQuantity = 0,
                           newQuantity = quantity item, tx_reason = Some ''Initial stock'',
                           tx_cost = costOrZero (cost item)\<rparr>
                  in case saveTransaction t s1 of
                       None \<Rightarrow> (ServerError ''Failed to create inventory item'', s1)
                     | Some s2 \<Rightarrow> (ItemCreated item (populateCategory s1 item), s2))
               else (ItemCreated item (populateCategory s1 item), s1)))"

text \<open>\<open>Object.assign(item, req.body)\<close>: the keys present in the body overwrite.\<close>

definition assignBody :: "inventory \<Rightarrow> inventoryBody \<Rightarrow> inventory" where
  "assignBody item b =
     item\<lparr>name := trim (b_name b),
          category := (case b_category b of None \<Rightarrow> category item | Some c \<Rightarrow> Some c),
          quantity := b_quantity b,
          unit := b_unit b,
          minThreshold := (case b_minThreshold b of None \<Rightarrow> minThreshold item | Some m \<Rightarrow> m),
          maxThreshold := (case b_maxThreshold b of None \<Rightarrow> maxThreshold item | Some m \<Rightarrow> m),
          cost := (case b_cost b of None \<Rightarrow> cost item | Some c \<Rightarrow> c),
          isActive := (case b_isActive b of None \<Rightarrow> isActive item | Some a \<Rightarrow> a)\<rparr>"

text \<open>\<open>PUT /inventory/:id\<close> (lines 146--186).\<close>

definition updateInventory :: "reqUser \<Rightarrow> objectId \<Rightarrow> inventoryBody \<Rightarrow> db \<Rightarrow> response \<times> db" where
  "updateInventory u oid body s =
     (case validateInventory body of
        Inl errors \<Rightarrow> (ValidationFailed errors, s)
      | Inr b \<Rightarrow>
          (case find (\<lambda>i. item_id i = oid \<and> school i = user_school u) (inventories s) of
             None \<Rightarrow> (NotFound, s)
           | Some found \<Rightarrow>
               (let previous = quantity found;
                    item = assignBody found b
                in case saveInventory item s of
                     None \<Rightarrow> (ServerError ''Failed to update inventory item'', s)
                   | Some s1 \<Rightarrow>
                       if previous \<noteq> quantity item then
                         (let t = \<lparr>tx_type = ''adjustment'', tx_inventory = item_id item,
                                   tx_school = user_school u, tx_user = user_id u,
                                   tx_quantity = toDouble (quantity item - previous),
                                   previousQuantity = previous,
                                   newQuantity = quantity item,
                                   tx_reason = Some ''Manual adjustment'',
                                   tx_cost = costOrZero (cost item)\<rparr>
                          in case saveTransaction t s1 of
                               None \<Rightarrow> (ServerError ''Failed to update inventory item'', s1)
                             | Some s2 \<Rightarrow> (ItemUpdated item (populateCategory s1 item), s2))
                       else (ItemUpdated item (populateCategory s1 item), s1))))"

text \<open>\<open>DELETE /inventory/:id\<close> (lines 189--207): the soft delete.\<close>

definition deleteInventory :: "reqUser \<Rightarrow> objectId \<Rightarrow> db \<Rightarrow> response \<times> db" where
  "deleteInventory u oid s =
     (case find (\<lambda>i. item_id i = oid \<and> school i = user_school u) (inventories s) of
        None \<Rightarrow> (NotFound, s)
      | Some found \<Rightarrow>
          (case saveInventory (found\<lparr>isActive := False\<rparr>) s of
             None \<Rightarrow> (ServerError ''Failed to delete inventory item'', s)
           | Some s1 \<Rightarrow> (ItemDeleted, s1)))"

section \<open>Sequences of requests\<close>

datatype operation =
    CreateItem reqUser objectId inventoryBody
  | UpdateItem reqUser objectId inventoryBody
  | DeleteItem reqUser objectId
  | ApplyTransaction reqUser transactionBody

fun step :: "operation \<Rightarrow> db \<Rightarrow> response \<times> db" where
  "step (CreateItem u oid b) s = createInventory u oid b s"
| "step (UpdateItem u oid b) s = updateInventory u oid b s"
| "step (DeleteItem u oid) s = deleteInventory u oid s"
| "step (ApplyTransaction u b) s = createTransaction u b s"

fun run :: "operation list \<Rightarrow> db \<Rightarrow> db" where
  "run [] s = s"
| "run (x # xs) s = run xs (snd (step x s))"

definition emptyDb :: db where
  "emptyDb = \<lparr>inventories = [], transactions = [], categories = []\<rparr>"

section \<open>Aggregation reporter: \<open>GET /reports/categories\<close>\<close>

text \<open>
  The pipeline of \<open>routes/reports.js\<close> (lines 569--605), stage by stage. A group of
  \<open>$group\<close> starts when the first document with its key arrives; every \<open>$sum\<close>
  counts from 0.
\<close>

record categoryGroup =
  g_id :: "objectId option"
  itemCount :: int
  totalQuantity :: int
  totalValue :: rat
  lowStockItems :: int

record categoryRow = categoryGroup +
  r_name :: string
  r_color :: string
  averageValue :: rat

definition zeroGroup :: "objectId option \<Rightarrow> categoryGroup" where
  "zeroGroup k = \<lparr>g_id = k, itemCount = 0, totalQuantity = 0, totalValue = 0, lowStockItems = 0\<rparr>"

definition accumulate :: "inventory \<Rightarrow> categoryGroup \<Rightarrow> categoryGroup" where
  "accumulate i g =
     g\<lparr>itemCount := itemCount g + 1,
       totalQuantity := totalQuantity g + quantity i,
       totalValue := totalValue g + of_int (quantity i) * cost i,
       lowStockItems := lowStockItems g + (if quantity i \<le> minThreshold i then 1 else 0)\<rparr>"

fun groupInsert :: "inventory \<Rightarrow> categoryGroup list \<Rightarrow> categoryGroup list" where
  "groupInsert i [] = [accumulate i (zeroGroup (category i))]"
| "groupInsert i (g # gs) =
     (if g_id g = category i then accumulate i g # gs else g # groupInsert i gs)"

definition groupStage :: "inventory list \<Rightarrow> categoryGroup list" where
  "groupStage docs = foldl (\<lambda>gs i. groupInsert i gs) [] docs"

text \<open>
  \<open>$lookup\<close> into the categories followed by \<open>$unwind\<close>: one output per matching
  category document, none when there is no match.
\<close>

definition lookupUnwind :: "categoryDoc list \<Rightarrow> categoryGroup \<Rightarrow> (categoryGroup \<times> categoryDoc) list" where
  "lookupUnwind cats g = map (Pair g) (filter (\<lambda>c. Some (cat_id c) = g_id g) cats)"

text \<open>\<open>$divide\<close> raises on a zero divisor; the route then answers 500.\<close>

datatype mongoError = DivideByZero

definition mongoDivide :: "rat \<Rightarrow> int \<Rightarrow> mongoError + rat" where
  "mongoDivide a b = (if b = 0 then Inl DivideByZero else Inr (a / of_int b))"

definition projectRow :: "categoryGroup \<times> categoryDoc \<Rightarrow> mongoError + categoryRow" where
  "projectRow gc =
     (case mongoDivide (totalValue (fst gc)) (itemCount (fst gc)) of
        Inl e \<Rightarrow> Inl e
      | Inr avg \<Rightarrow>
          Inr \<lparr>g_id = g_id (fst gc), itemCount = itemCount (fst gc),
               totalQuantity = totalQuantity (fst gc), totalValue = totalValue (fst gc),
               lowStockItems = lowStockItems (fst gc),
               r_name = cat_name (snd gc), r_color = cat_color (snd gc),
               averageValue = avg\<rparr>)"

fun projectStage :: "(categoryGroup \<times> categoryDoc) list \<Rightarrow> mongoError + categoryRow list" where
  "projectStage [] = Inr []"
| "projectStage (gc # rest) =
     (case projectRow gc of
        Inl e \<Rightarrow> Inl e
      | Inr row \<Rightarrow>
          (case projectStage rest of Inl e \<Rightarrow> Inl e | Inr rows \<Rightarrow> Inr (row # rows)))"

definition matchStage :: "objectId \<Rightarrow> inventory list \<Rightarrow> inventory list" where
  "matchStage schoolId docs = filter (\<lambda>i. school i = schoolId \<and> isActive i) docs"

definition categoryStats :: "objectId \<Rightarrow> db \<Rightarrow> mongoError + categoryRow list" where
  "categoryStats schoolId s =
     (case projectStage
             (concat (map (lookupUnwind (categories s))
                        (groupStage (matchStage schoolId (inventories s))))) of
        Inl e \<Rightarrow> Inl e
      | Inr rows \<Rightarrow> Inr (sort_key (\<lambda>r. - totalValue r) rows))"

section \<open>Invariants of the store\<close>

text \<open>Every stored item passes the schema's validators; no stored quantity is negative.\<close>

definition storeValid :: "db \<Rightarrow> bool" where
  "storeValid s \<longleftrightarrow> list_all validateInventoryDoc (inventories s)"

definition nonNegative :: "db \<Rightarrow> bool" where
  "nonNegative s \<longleftrightarrow> list_all (\<lambda>i. 0 \<le> quantity i) (inventories s)"

text \<open>A transaction record whose three quantities add up.\<close>

definition balanced :: "transaction \<Rightarrow> bool" where
  "balanced t \<longleftrightarrow> previousQuantity t + tx_quantity t = newQuantity t"

section \<open>Sample data\<close>

text \<open>A user of school 1, one item with a given quantity, and small requests.\<close>

definition sampleUser :: reqUser where
  "sampleUser = \<lparr>user_id = 7, user_school = 1\<rparr>"

definition sampleItem :: "int \<Rightarrow> inventory" where
  "sampleItem q =
     \<lparr>item_id = 1, name = ''Pencil'', category = Some 3, school = 1, quantity = q,
      unit = ''pieces'', minThreshold = 5, maxThreshold = 100, cost = 2, isActive = True\<rparr>"

definition sampleCategories :: "categoryDoc list" where
  "sampleCategories =
     [\<lparr>cat_id = 3, cat_name = ''Stationery'', cat_color = ''#3B82F6''\<rparr>,
      \<lparr>cat_id = 4, cat_name = ''Sports'', cat_color = ''#10B981''\<rparr>]"

definition sampleDb :: "int \<Rightarrow> db" where
  "sampleDb q = \<lparr>inventories = [sampleItem q], transactions = [], categories = sampleCategories\<rparr>"

definition sampleRequest :: "string \<Rightarrow> int \<Rightarrow> rat option \<Rightarrow> transactionBody" where
  "sampleRequest ty q c =
     \<lparr>tb_type = ty, tb_inventory = 1, tb_quantity = q, tb_quantityForm = AsNumber,
      tb_reason = None, tb_cost = c\<rparr>"

text \<open>The same request with the quantity sent as the string of its digits.\<close>

definition sampleStringRequest :: "string \<Rightarrow> int \<Rightarrow> rat option \<Rightarrow> transactionBody" where
  "sampleStringRequest ty q c = (sampleRequest ty q c)\<lparr>tb_quantityForm := AsString False 0\<rparr>"

definition sampleBody :: "int \<Rightarrow> inventoryBody" where
  "sampleBody q =
     \<lparr>b_name = ''Pen'', b_category = Some 3, b_quantity = q, b_unit = ''box'',
      b_minThreshold = None, b_maxThreshold = None, b_cost = None, b_isActive = None\<rparr>"

section \<open>Auxiliary lemmas\<close>

lemma find_SomeD: "find P xs = Some x \<Longrightarrow> P x \<and> x \<in> set xs"
  by (induction xs) (auto split: if_splits)

lemma find_replaced:
  "e \<in> set xs \<Longrightarrow> item_id e = item_id d \<Longrightarrow>
   find (\<lambda>i. item_id i = item_id d) (map (\<lambda>i. if item_id i = item_id d then d else i) xs) = Some d"
  by (induction xs) auto

lemma find_appended:
  "k \<notin> item_id ` set xs \<Longrightarrow> item_id d = k \<Longrightarrow> find (\<lambda>i. item_id i = k) (xs @ [d]) = Some d"
  by (induction xs) auto

lemma validateTransaction_Inr:
  "validateTransaction body = Inr b \<longleftrightarrow>
     tb_type body \<in> set transactionTypes \<and> 1 \<le> tb_quantity body
     \<and> (case tb_reason body of None \<Rightarrow> True | Some r \<Rightarrow> length (trim r) \<le> 500)
     \<and> b = body\<lparr>tb_reason := map_option trim (tb_reason body)\<rparr>"
  by (auto simp: validateTransaction_def Let_def split: option.splits)

lemma toDouble_safe: "safeInteger n \<Longrightarrow> toDouble n = n"
  by (simp add: toDouble_def safeInteger_def)

lemma replace_valid:
  "list_all validateInventoryDoc xs \<Longrightarrow> validateInventoryDoc d \<Longrightarrow>
   list_all validateInventoryDoc (map (\<lambda>i. if item_id i = item_id d then d else i) xs)"
  by (induction xs) auto

lemma saveInventory_valid: "saveInventory d s = Some s' \<Longrightarrow> storeValid s \<Longrightarrow> storeValid s'"
  by (auto simp: saveInventory_def storeValid_def replace_valid split: if_splits)

lemma insertInventory_valid: "insertInventory d s = Some s' \<Longrightarrow> storeValid s \<Longrightarrow> storeValid s'"
  by (auto simp: insertInventory_def storeValid_def split: if_splits)

lemma saveTransaction_inventories: "saveTransaction t s = Some s' \<Longrightarrow> inventories s' = inventories s"
  by (auto simp: saveTransaction_def split: if_splits)

lemma saveTransaction_valid: "saveTransaction t s = Some s' \<Longrightarrow> storeValid s \<Longrightarrow> storeValid s'"
  by (simp add: storeValid_def saveTransaction_inventories)

lemma createTransaction_valid: "storeValid s \<Longrightarrow> storeValid (snd (createTransaction u body s))"
  by (auto simp: createTransaction_def Let_def saveTransaction_valid saveInventory_valid
      split: sum.splits option.splits prod.splits)

lemma createInventory_valid: "storeValid s \<Longrightarrow> storeValid (snd (createInventory u oid body s))"
  by (auto simp: createInventory_def Let_def saveTransaction_valid insertInventory_valid
      split: sum.splits option.splits prod.splits)

lemma updateInventory_valid: "storeValid s \<Longrightarrow> storeValid (snd (updateInventory u oid body s))"
  by (auto simp: updateInventory_def Let_def saveTransaction_valid saveInventory_valid
      split: sum.splits option.splits prod.splits)

lemma deleteInventory_valid: "storeValid s \<Longrightarrow> storeValid (snd (deleteInventory u oid s))"
  by (auto simp: deleteInventory_def Let_def saveInventory_valid
      split: sum.splits option.splits prod.splits)

lemma step_valid: "storeValid s \<Longrightarrow> storeValid (snd (step x s))"
  by (cases x) (simp_all add: createTransaction_valid createInventory_valid updateInventory_valid deleteInventory_valid)

lemma run_valid: "storeValid s \<Longrightarrow> storeValid (run xs s)"
  by (induction xs arbitrary: s) (simp_all add: step_valid)

lemma emptyDb_valid: "storeValid emptyDb"
  by (simp add: storeValid_def emptyDb_def)

lemma replace_nonneg:
  "list_all (\<lambda>i. 0 \<le> quantity i) xs \<Longrightarrow> 0 \<le> quantity d \<Longrightarrow>
   list_all (\<lambda>i. 0 \<le> quantity i) (map (\<lambda>i. if item_id i = item_id d then d else i) xs)"
  by (induction xs) auto

lemma saveInventory_nonneg: "saveInventory d s = Some s' \<Longrightarrow> nonNegative s \<Longrightarrow> nonNegative s'"
  by (auto simp: saveInventory_def nonNegative_def validateInventoryDoc_def replace_nonneg
      split: if_splits)

lemma insertInventory_nonneg: "insertInventory d s = Some s' \<Longrightarrow> nonNegative s \<Longrightarrow> nonNegative s'"
  by (auto simp: insertInventory_def nonNegative_def validateInventoryDoc_def split: if_splits)

lemma saveTransaction_nonneg: "saveTransaction t s = Some s' \<Longrightarrow> nonNegative s \<Longrightarrow> nonNegative s'"
  by (simp add: nonNegative_def saveTransaction_inventories)

lemma createTransaction_nonneg: "nonNegative s \<Longrightarrow> nonNegative (snd (createTransaction u body s))"
  by (auto simp: createTransaction_def Let_def saveTransaction_nonneg saveInventory_nonneg
      split: sum.splits option.splits prod.splits)

lemma createInventory_nonneg: "nonNegative s \<Longrightarrow> nonNegative (snd (createInventory u oid body s))"
  by (auto simp: createInventory_def Let_def saveTransaction_nonneg insertInventory_nonneg
      split: sum.splits option.splits prod.splits)

lemma updateInventory_nonneg: "nonNegative s \<Longrightarrow> nonNegative (snd (updateInventory u oid body s))"
  by (auto simp: updateInventory_def Let_def saveTransaction_nonneg saveInventory_nonneg
      split: sum.splits option.splits prod.splits)

lemma deleteInventory_nonneg: "nonNegative s \<Longrightarrow> nonNegative (snd (deleteInventory u oid s))"
  by (auto simp: deleteInventory_def Let_def saveInventory_nonneg
      split: sum.splits option.splits prod.splits)

lemma step_nonneg: "nonNegative s \<Longrightarrow> nonNegative (snd (step x s))"
  by (cases x) (simp_all add: createTransaction_nonneg createInventory_nonneg
      updateInventory_nonneg deleteInventory_nonneg)

lemma run_nonneg: "nonNegative s \<Longrightarrow> nonNegative (run xs s)"
  by (induction xs arbitrary: s) (simp_all add: step_nonneg)

lemma createTransaction_found:
  assumes v: "validateTransaction body = Inr b"
    and f: "find (\<lambda>i. item_id i = tb_inventory body \<and> school i = user_school u \<and> isActive i)
              (inventories s) = Some item"
    and ok: "validateInventoryDoc item"
    and sw: "switchType (tb_type body) (quantity item) (tb_quantity body) (sentQuantity body)
               = Inr (JsNumber nq, dq)"
    and nq: "0 \<le> nq"
  shows "createTransaction u body s =
     (let t = \<lparr>tx_type = tb_type body, tx_inventory = tb_inventory body,
               tx_school = user_school u, tx_user = user_id u, tx_quantity = dq,
               previousQuantity = quantity item, newQuantity = nq,
               tx_reason = map_option trim (tb_reason body),
               tx_cost = (case tb_cost body of None \<Rightarrow> 0 | Some c \<Rightarrow> c)\<rparr>;
          docs = map (\<lambda>i. if item_id i = item_id item then item\<lparr>quantity := nq\<rparr> else i)
                   (inventories s)
      in if 0 \<le> tx_cost t
         then (Created t, s\<lparr>transactions := transactions s @ [t], inventories := docs\<rparr>)
         else (ServerError ''Failed to create transaction'', s\<lparr>inventories := docs\<rparr>))"
proof -
  from v have b: "b = body\<lparr>tb_reason := map_option trim (tb_reason body)\<rparr>"
    and ty: "tb_type body \<in> set transactionTypes"
    by (simp_all add: validateTransaction_Inr)
  have sent: "sentQuantity (body\<lparr>tb_reason := map_option trim (tb_reason body)\<rparr>)
                = sentQuantity body"
    by (simp add: sentQuantity_def split: quantityForm.splits)
  from ok nq have ok': "validateInventoryDoc (item\<lparr>quantity := nq\<rparr>)"
    by (simp add: validateInventoryDoc_def)
  show ?thesis
    using v f sw ok' ty
    by (simp add: createTransaction_def b sent castNumber_def Let_def saveTransaction_def
        saveInventory_def validateTransactionDoc_def)
qed

lemma validateInventory_Inr:
  "validateInventory body = Inr b \<longleftrightarrow>
     1 \<le> length (trim (b_name body)) \<and> 0 \<le> b_quantity body \<and> 1 \<le> length (trim (b_unit body))
     \<and> (case b_minThreshold body of None \<Rightarrow> True | Some m \<Rightarrow> 0 \<le> m)
     \<and> (case b_cost body of None \<Rightarrow> True | Some c \<Rightarrow> 0 \<le> c)
     \<and> b = body\<lparr>b_name := trim (b_name body), b_unit := trim (b_unit body)\<rparr>"
  by (auto simp: validateInventory_def Let_def split: option.splits)

lemma dropTrailing_head:
  assumes "ys = [] \<or> \<not> P (hd ys)"
  shows "dropWhile P (rev (dropWhile P (rev ys))) = rev (dropWhile P (rev ys))"
proof (cases ys)
  case Nil
  then show ?thesis by simp
next
  case (Cons y ys')
  with assms have "\<not> P y" by simp
  then have "dropWhile P (rev ys' @ [y]) = dropWhile P (rev ys') @ [y]"
    by (rule dropWhile_append3)
  with Cons \<open>\<not> P y\<close> show ?thesis by simp
qed

lemma trim_trim: "trim (trim s) = trim s"
proof -
  let ?t = "dropWhile isWhitespace s"
  have "?t = [] \<or> \<not> isWhitespace (hd ?t)"
    using hd_dropWhile[of isWhitespace s] by blast
  then have "dropWhile isWhitespace (trim s) = trim s"
    unfolding trim_def by (rule dropTrailing_head)
  then show ?thesis
    by (simp add: trim_def)
qed

lemma createInventory_created:
  assumes v: "validateInventory body = Inr b"
    and c: "b_category body \<noteq> None"
    and fresh: "oid \<notin> item_id ` set (inventories s)"
  shows "createInventory u oid body s =
     (let item = newInventory oid (user_school u) b;
          t = \<lparr>tx_type = ''check-in'', tx_inventory = oid, tx_school = user_school u,
               tx_user = user_id u, tx_quantity = b_quantity body, previousQuantity = 0,
               newQuantity = b_quantity body, tx_reason = Some ''Initial stock'',
               tx_cost = cost item\<rparr>
      in (ItemCreated item (populateCategory s item),
          s\<lparr>inventories := inventories s @ [item],
            transactions := (if 0 < b_quantity body then transactions s @ [t]
                             else transactions s)\<rparr>))"
proof -
  from v have b: "b = body\<lparr>b_name := trim (b_name body), b_unit := trim (b_unit body)\<rparr>"
    and n: "1 \<le> length (trim (b_name body))" and q: "0 \<le> b_quantity body"
    and un: "1 \<le> length (trim (b_unit body))"
    and k: "case b_cost body of None \<Rightarrow> True | Some c \<Rightarrow> 0 \<le> c"
    by (simp_all add: validateInventory_Inr)
  let ?item = "newInventory oid (user_school u) b"
  have ok: "validateInventoryDoc ?item"
    using n q un k c
    by (auto simp: validateInventoryDoc_def newInventory_def b trim_trim split: option.splits)
  have k': "0 \<le> cost ?item"
    using ok by (simp add: validateInventoryDoc_def)
  have id: "item_id ?item = oid" and qi: "quantity ?item = b_quantity body"
    by (simp_all add: newInventory_def b)
  have p: "populateCategory (s\<lparr>inventories := docs\<rparr>) ?item = populateCategory s ?item" for docs
    by (simp add: populateCategory_def split: option.splits)
  show ?thesis
    using v ok fresh k' id qi
    by (simp add: createInventory_def Let_def insertInventory_def saveTransaction_def
        validateTransactionDoc_def transactionTypes_def costOrZero_def p)
qed

lemma getItem_replaced:
  assumes "e \<in> set (inventories s)" and "item_id e = item_id d" and "item_id d = k"
  shows "getItem (s\<lparr>inventories := map (\<lambda>i. if item_id i = item_id d then d else i)
                                       (inventories s)\<rparr>) k = Some d"
  using assms find_replaced[of e "inventories s" d] by (simp add: getItem_def)

lemma found_valid:
  "find P (inventories s) = Some item \<Longrightarrow> storeValid s \<Longrightarrow> validateInventoryDoc item"
  using find_SomeD[of P "inventories s" item] by (simp add: storeValid_def list_all_iff)

lemma createInventory_ItemCreatedD:
  assumes "fst (createInventory u oid body s) = ItemCreated item c"
  shows "(\<exists>b. validateInventory body = Inr b) \<and> b_category body \<noteq> None
         \<and> oid \<notin> item_id ` set (inventories s)"
proof -
  from assms obtain b where v: "validateInventory body = Inr b"
    by (cases "validateInventory body") (simp_all add: createInventory_def)
  then have b: "b = body\<lparr>b_name := trim (b_name body), b_unit := trim (b_unit body)\<rparr>"
    by (simp add: validateInventory_Inr)
  from assms v obtain s1 where
    i: "insertInventory (newInventory oid (user_school u) b) s = Some s1"
    by (cases "insertInventory (newInventory oid (user_school u) b) s")
       (simp_all add: createInventory_def Let_def)
  then have "validateInventoryDoc (newInventory oid (user_school u) b)"
    and "item_id (newInventory oid (user_school u) b) \<notin> item_id ` set (inventories s)"
    by (simp_all add: insertInventory_def split: if_splits)
  then have "b_category body \<noteq> None" and "oid \<notin> item_id ` set (inventories s)"
    by (simp_all add: validateInventoryDoc_def newInventory_def b)
  with v show ?thesis by blast
qed

lemma createInventory_not_created:
  assumes "\<forall>item c. fst (createInventory u oid body s) \<noteq> ItemCreated item c"
  shows "transactions (snd (createInventory u oid body s)) = transactions s"
  using assms
  by (auto simp: createInventory_def Let_def insertInventory_def
      split: sum.splits option.splits if_splits)

lemma groupInsert_pos:
  "\<forall>g\<in>set gs. 1 \<le> itemCount g \<Longrightarrow> \<forall>g\<in>set (groupInsert i gs). 1 \<le> itemCount g"
  by (induction gs) (auto simp: accumulate_def zeroGroup_def)

lemma foldl_groupInsert_pos:
  "\<forall>g\<in>set gs. 1 \<le> itemCount g \<Longrightarrow>
   \<forall>g\<in>set (foldl (\<lambda>gs i. groupInsert i gs) gs docs). 1 \<le> itemCount g"
proof (induction docs arbitrary: gs)
  case Nil
  then show ?case by simp
next
  case (Cons d docs)
  from Cons.prems have "\<forall>g\<in>set (groupInsert d gs). 1 \<le> itemCount g"
    by (rule groupInsert_pos)
  then show ?case
    using Cons.IH by simp
qed

lemma groupStage_pos: "g \<in> set (groupStage docs) \<Longrightarrow> 1 \<le> itemCount g"
  using foldl_groupInsert_pos[of "[]" docs] by (simp add: groupStage_def)

lemma groupInsert_ids: "g_id ` set (groupInsert i gs) = insert (category i) (g_id ` set gs)"
  by (induction gs) (auto simp: accumulate_def zeroGroup_def)

lemma foldl_groupInsert_ids:
  "g_id ` set (foldl (\<lambda>gs i. groupInsert i gs) gs docs) = g_id ` set gs \<union> category ` set docs"
  by (induction docs arbitrary: gs) (auto simp: groupInsert_ids)

lemma groupStage_ids: "g_id ` set (groupStage docs) = category ` set docs"
  using foldl_groupInsert_ids[of "[]" docs] by (simp add: groupStage_def)

lemma projectStage_rows:
  "\<forall>gc\<in>set gcs. 1 \<le> itemCount (fst gc) \<Longrightarrow>
   \<exists>rows. projectStage gcs = Inr rows
     \<and> (\<forall>r\<in>set rows. \<exists>gc\<in>set gcs.
            g_id r = g_id (fst gc) \<and> itemCount r = itemCount (fst gc)
            \<and> totalValue r = totalValue (fst gc)
            \<and> averageValue r = totalValue (fst gc) / of_int (itemCount (fst gc)))"
proof (induction gcs)
  case Nil
  then show ?case by simp
next
  case (Cons gc gcs)
  then obtain rows where rows: "projectStage gcs = Inr rows"
    and each: "\<forall>r\<in>set rows. \<exists>gc\<in>set gcs.
            g_id r = g_id (fst gc) \<and> itemCount r = itemCount (fst gc)
            \<and> totalValue r = totalValue (fst gc)
            \<and> averageValue r = totalValue (fst gc) / of_int (itemCount (fst gc))"
    by auto
  from Cons.prems have "itemCount (fst gc) \<noteq> 0"
    by simp
  then obtain row where row: "projectRow gc = Inr row"
    and fields: "g_id row = g_id (fst gc)" "itemCount row = itemCount (fst gc)"
      "totalValue row = totalValue (fst gc)"
      "averageValue row = totalValue (fst gc) / of_int (itemCount (fst gc))"
    by (simp add: projectRow_def mongoDivide_def)
  have "projectStage (gc # gcs) = Inr (row # rows)"
    by (simp add: row rows)
  moreover have "\<forall>r\<in>set (row # rows). \<exists>g\<in>set (gc # gcs).
            g_id r = g_id (fst g) \<and> itemCount r = itemCount (fst g)
            \<and> totalValue r = totalValue (fst g)
            \<and> averageValue r = totalValue (fst g) / of_int (itemCount (fst g))"
    using each fields by auto
  ultimately show ?case by blast
qed

lemma joined_groups:
  "gc \<in> set (concat (map (lookupUnwind cats) gs)) \<Longrightarrow> fst gc \<in> set gs"
  by (auto simp: lookupUnwind_def)

lemma categoryStats_rows:
  "\<exists>rows. categoryStats schoolId s = Inr rows
     \<and> (\<forall>r\<in>set rows. \<exists>g\<in>set (groupStage (matchStage schoolId (inventories s))).
            g_id r = g_id g \<and> itemCount r = itemCount g \<and> totalValue r = totalValue g
            \<and> averageValue r = totalValue g / of_int (itemCount g))"
proof -
  let ?gs = "groupStage (matchStage schoolId (inventories s))"
  let ?gcs = "concat (map (lookupUnwind (categories s)) ?gs)"
  have m: "\<forall>gc\<in>set ?gcs. fst gc \<in> set ?gs"
    using joined_groups by blast
  then have "\<forall>gc\<in>set ?gcs. 1 \<le> itemCount (fst gc)"
    using groupStage_pos by blast
  from projectStage_rows[OF this] obtain rows where rows: "projectStage ?gcs = Inr rows"
    and each: "\<forall>r\<in>set rows. \<exists>gc\<in>set ?gcs.
            g_id r = g_id (fst gc) \<and> itemCount r = itemCount (fst gc)
            \<and> totalValue r = totalValue (fst gc)
            \<and> averageValue r = totalValue (fst gc) / of_int (itemCount (fst gc))"
    by blast
  have "categoryStats schoolId s = Inr (sort_key (\<lambda>r. - totalValue r) rows)"
    by (simp add: categoryStats_def rows)
  moreover have "\<forall>r\<in>set (sort_key (\<lambda>r. - totalValue r) rows). \<exists>g\<in>set ?gs.
            g_id r = g_id g \<and> itemCount r = itemCount g \<and> totalValue r = totalValue g
            \<and> averageValue r = totalValue g / of_int (itemCount g)"
    using each m by (simp only: set_sort) blast
  ultimately show ?thesis by blast
qed

lemma categoryStats_row:
  assumes "categoryStats schoolId s = Inr rows" and "r \<in> set rows"
  shows "1 \<le> itemCount r \<and> averageValue r = totalValue r / of_int (itemCount r)
         \<and> (\<exists>i\<in>set (inventories s). school i = schoolId \<and> isActive i \<and> category i = g_id r)"
proof -
  from categoryStats_rows[of schoolId s] assms obtain g where
    g: "g \<in> set (groupStage (matchStage schoolId (inventories s)))"
    and r: "g_id r = g_id g" "itemCount r = itemCount g" "totalValue r = totalValue g"
      "averageValue r = totalValue g / of_int (itemCount g)"
    by auto
  from g have pos: "1 \<le> itemCount g"
    by (rule groupStage_pos)
  from g have "g_id g \<in> category ` set (matchStage schoolId (inventories s))"
    using groupStage_ids by blast
  then have "\<exists>i\<in>set (inventories s). school i = schoolId \<and> isActive i \<and> category i = g_id g"
    by (auto simp: matchStage_def)
  with pos show ?thesis
    by (simp add: r)
qed

section \<open>Properties of the classifier\<close>

text \<open>
  C3. The stock status depends on the quantity and the two thresholds only, and the
  rules apply in priority order: out-of-stock exactly when the quantity is at most 0;
  low-stock exactly when it is positive and at most the minimum threshold; overstock
  exactly when it is positive, above the minimum threshold and at least the maximum
  threshold; in-stock exactly when it is positive and strictly between the thresholds.
  The result is always one of the four statuses, also when the minimum threshold exceeds
  the maximum one (then low-stock wins over overstock), and the four sample points
  (0,5,100), (5,5,100), (50,5,100), (100,5,100) classify as out-of-stock, low-stock,
  in-stock and overstock.
\<close>

theorem stockStatus_priority:
  "(quantity i = quantity j \<and> minThreshold i = minThreshold j \<and> maxThreshold i = maxThreshold j
      \<longrightarrow> stockStatus i = stockStatus j)
   \<and> (stockStatus i = ''out-of-stock'' \<longleftrightarrow> quantity i \<le> 0)
   \<and> (stockStatus i = ''low-stock'' \<longleftrightarrow> 0 < quantity i \<and> quantity i \<le> minThreshold i)
   \<and> (stockStatus i = ''overstock'' \<longleftrightarrow>
        0 < quantity i \<and> minThreshold i < quantity i \<and> maxThreshold i \<le> quantity i)
   \<and> (stockStatus i = ''in-stock'' \<longleftrightarrow>
        0 < quantity i \<and> minThreshold i < quantity i \<and> quantity i < maxThreshold i)
   \<and> stockStatus i \<in> {''out-of-stock'', ''low-stock'', ''overstock'', ''in-stock''}
   \<and> (maxThreshold i < minThreshold i \<and> 0 < quantity i \<and> quantity i \<le> minThreshold i
        \<longrightarrow> stockStatus i = ''low-stock'')
   \<and> stockStatus (i\<lparr>quantity := 0, minThreshold := 5, maxThreshold := 100\<rparr>) = ''out-of-stock''
   \<and> stockStatus (i\<lparr>quantity := 5, minThreshold := 5, maxThreshold := 100\<rparr>) = ''low-stock''
   \<and> stockStatus (i\<lparr>quantity := 50, minThreshold := 5, maxThreshold := 100\<rparr>) = ''in-stock''
   \<and> stockStatus (i\<lparr>quantity := 100, minThreshold := 5, maxThreshold := 100\<rparr>) = ''overstock''"
  by (simp add: stockStatus_def)

theorem stockStatus_priority_witness:
  "quantity (sampleItem 7\<lparr>minThreshold := 10, maxThreshold := 3\<rparr>)
     = quantity (sampleItem 7\<lparr>minThreshold := 10, maxThreshold := 3, name := ''Chalk''\<rparr>)
   \<and> maxThreshold (sampleItem 7\<lparr>minThreshold := 10, maxThreshold := 3\<rparr>)
     < minThreshold (sampleItem 7\<lparr>minThreshold := 10, maxThreshold := 3\<rparr>)
   \<and> stockStatus (sampleItem 7\<lparr>minThreshold := 10, maxThreshold := 3\<rparr>)
     = stockStatus (sampleItem 7\<lparr>minThreshold := 10, maxThreshold := 3, name := ''Chalk''\<rparr>)
   \<and> stockStatus (sampleItem 7\<lparr>minThreshold := 10, maxThreshold := 3\<rparr>) = ''low-stock''"
proof -
  let ?i = "sampleItem 7\<lparr>minThreshold := 10, maxThreshold := 3\<rparr>"
  let ?j = "sampleItem 7\<lparr>minThreshold := 10, maxThreshold := 3, name := ''Chalk''\<rparr>"
  have same: "quantity ?i = quantity ?j \<and> minThreshold ?i = minThreshold ?j
                \<and> maxThreshold ?i = maxThreshold ?j"
    by simp
  have crossed: "maxThreshold ?i < minThreshold ?i \<and> 0 < quantity ?i
                   \<and> quantity ?i \<le> minThreshold ?i"
    by (simp add: sampleItem_def)
  from stockStatus_priority [of ?i ?j] same crossed
  have "stockStatus ?i = stockStatus ?j" and "stockStatus ?i = ''low-stock''"
    by blast+
  with same crossed show ?thesis
    by blast
qed

section \<open>Quantities are never negative\<close>

text \<open>
  C1. No request drives a stored quantity below zero: when every stored quantity is
  non-negative, it still is after any single request (item creation, check-in, check-out
  or adjustment through the transaction route, direct update, soft delete) and after any
  sequence of requests; in particular after any sequence run on the empty store.
\<close>

theorem quantity_never_negative:
  "(nonNegative s \<longrightarrow> nonNegative (snd (step x s)) \<and> nonNegative (run xs s))
   \<and> nonNegative (run xs emptyDb)"
proof -
  have "nonNegative emptyDb"
    by (simp add: nonNegative_def emptyDb_def)
  then show ?thesis
    by (simp add: step_nonneg run_nonneg)
qed

theorem quantity_never_negative_witness:
  "nonNegative (sampleDb 4)
   \<and> nonNegative (snd (step (ApplyTransaction sampleUser (sampleRequest ''check-out'' 4 None))
                        (sampleDb 4)))
   \<and> nonNegative (run [ApplyTransaction sampleUser (sampleRequest ''check-out'' 3 None),
                        ApplyTransaction sampleUser (sampleRequest ''check-out'' 3 None),
                        UpdateItem sampleUser 1 (sampleBody (- 2))] (sampleDb 4))
   \<and> nonNegative (run [CreateItem sampleUser 1 (sampleBody 10),
                        ApplyTransaction sampleUser (sampleRequest ''adjustment'' 2 None)]
                    emptyDb)"
proof -
  have h: "nonNegative (sampleDb 4)"
    by (simp add: nonNegative_def sampleDb_def sampleItem_def)
  show ?thesis
    using h quantity_never_negative
      [of "sampleDb 4" "ApplyTransaction sampleUser (sampleRequest ''check-out'' 4 None)"
          "[ApplyTransaction sampleUser (sampleRequest ''check-out'' 3 None),
            ApplyTransaction sampleUser (sampleRequest ''check-out'' 3 None),
            UpdateItem sampleUser 1 (sampleBody (- 2))]"]
      quantity_never_negative
      [of "sampleDb 4" "ApplyTransaction sampleUser (sampleRequest ''check-out'' 4 None)"
          "[CreateItem sampleUser 1 (sampleBody 10),
            ApplyTransaction sampleUser (sampleRequest ''adjustment'' 2 None)]"]
    by simp
qed

section \<open>Check-out\<close>




section \<open>Adjustment\<close>

text \<open>
  C5 (amended). For an adjustment request that passed validation (which demands a
  requested quantity of at least 1) and whose cost is absent or non-negative, against an
  item that exists, is active and belongs to the caller's school, both quantities being
  safe integers: the item's quantity becomes the requested quantity, and exactly one
  record is appended, with the new quantity equal to the requested one and the delta
  \<open>requested - previous\<close>. In particular an adjustment to the current quantity, when
  that quantity is at least 1, succeeds with delta 0 and equal previous and new
  quantities.
\<close>

theorem adjustment_absolute:
  assumes v: "validateTransaction body = Inr b"
    and ty: "tb_type body = ''adjustment''"
    and f: "find (\<lambda>i. item_id i = tb_inventory body \<and> school i = user_school u \<and> isActive i)
              (inventories s) = Some item"
    and ok: "storeValid s"
    and k: "0 \<le> (case tb_cost body of None \<Rightarrow> 0 | Some c \<Rightarrow> c)"
    and safe: "safeInteger (quantity item)" "safeInteger (tb_quantity body)"
  shows "1 \<le> tb_quantity body
    \<and> map_option quantity (getItem (snd (createTransaction u body s)) (tb_inventory body))
          = Some (tb_quantity body)
    \<and> (\<exists>t. fst (createTransaction u body s) = Created t
           \<and> transactions (snd (createTransaction u body s)) = transactions s @ [t]
           \<and> tx_type t = ''adjustment'' \<and> tx_inventory t = tb_inventory body
           \<and> previousQuantity t = quantity item
           \<and> newQuantity t = tb_quantity body
           \<and> tx_quantity t = tb_quantity body - quantity item
           \<and> (tb_quantity body = quantity item \<longrightarrow>
                 tx_quantity t = 0 \<and> previousQuantity t = newQuantity t))"
proof -
  from f have mem: "item \<in> set (inventories s)" and id: "item_id item = tb_inventory body"
    using find_SomeD[OF f] by simp_all
  have valid: "validateInventoryDoc item"
    using f ok by (rule found_valid)
  from v have q: "1 \<le> tb_quantity body"
    by (simp add: validateTransaction_Inr)
  from valid have "0 \<le> quantity item"
    by (simp add: validateInventoryDoc_def)
  with q safe have "safeInteger (tb_quantity body - quantity item)"
    by (simp add: safeInteger_def)
  then have exact: "toDouble (tb_quantity body - quantity item)
                      = tb_quantity body - quantity item"
    by (rule toDouble_safe)
  have sw: "switchType (tb_type body) (quantity item) (tb_quantity body) (sentQuantity body)
              = Inr (JsNumber (tb_quantity body), tb_quantity body - quantity item)"
    using ty by (simp add: switchType_def exact)
  from q have nq: "0 \<le> tb_quantity body"
    by simp
  note run = createTransaction_found[OF v f valid sw nq]
  let ?d = "item\<lparr>quantity := tb_quantity body\<rparr>"
  have g: "getItem (s\<lparr>transactions := ts,
                      inventories := map (\<lambda>i. if item_id i = item_id ?d then ?d else i)
                                       (inventories s)\<rparr>) (tb_inventory body) = Some ?d" for ts
    using getItem_replaced[of item s ?d "tb_inventory body"] mem id by (simp add: getItem_def)
  show ?thesis
    using q ty k g by (simp add: run Let_def)
qed

theorem adjustment_absolute_witness:
  "validateTransaction (sampleRequest ''adjustment'' 4 None) = Inr (sampleRequest ''adjustment'' 4 None)
   \<and> tb_type (sampleRequest ''adjustment'' 4 None) = ''adjustment''
   \<and> find (\<lambda>i. item_id i = tb_inventory (sampleRequest ''adjustment'' 4 None) \<and> school i = user_school sampleUser
                    \<and> isActive i) (inventories (sampleDb 4)) = Some (sampleItem 4)
   \<and> storeValid (sampleDb 4)
   \<and> safeInteger (quantity (sampleItem 4))
   \<and> safeInteger (tb_quantity (sampleRequest ''adjustment'' 4 None))
   \<and> (\<exists>t. fst (createTransaction sampleUser (sampleRequest ''adjustment'' 4 None) (sampleDb 4))
              = Created t
          \<and> tx_quantity t = 0 \<and> previousQuantity t = 4 \<and> newQuantity t = 4)"
proof -
  have v: "validateTransaction (sampleRequest ''adjustment'' 4 None) = Inr (sampleRequest ''adjustment'' 4 None)"
    by (simp add: validateTransaction_def sampleRequest_def transactionTypes_def)
  have ty: "tb_type (sampleRequest ''adjustment'' 4 None) = ''adjustment''"
    by (simp add: sampleRequest_def)
  have f: "find (\<lambda>i. item_id i = tb_inventory (sampleRequest ''adjustment'' 4 None)
                    \<and> school i = user_school sampleUser \<and> isActive i)
             (inventories (sampleDb 4)) = Some (sampleItem 4)"
    by (simp add: sampleRequest_def sampleDb_def sampleItem_def sampleUser_def)
  have ok: "storeValid (sampleDb 4)"
    by (simp add: storeValid_def sampleDb_def sampleItem_def validateInventoryDoc_def)
  have k: "0 \<le> (case tb_cost (sampleRequest ''adjustment'' 4 None) of None \<Rightarrow> 0 | Some c \<Rightarrow> c)"
    by (simp add: sampleRequest_def)
  have s1: "safeInteger (quantity (sampleItem 4))"
    by (simp add: safeInteger_def sampleItem_def)
  have s2: "safeInteger (tb_quantity (sampleRequest ''adjustment'' 4 None))"
    by (simp add: safeInteger_def sampleRequest_def)
  have "\<exists>t. fst (createTransaction sampleUser (sampleRequest ''adjustment'' 4 None) (sampleDb 4))
              = Created t
          \<and> tx_quantity t = 0 \<and> previousQuantity t = 4 \<and> newQuantity t = 4"
    using adjustment_absolute [OF v ty f ok k s1 s2]
    by (auto simp: sampleRequest_def sampleItem_def)
  with v ty f ok s1 s2 show ?thesis
    by simp
qed

text \<open>
  The claim as stated fails where the current quantity is 0: the adjustment to the
  current quantity is then rejected by the validator, and nothing is recorded.
\<close>

theorem adjustment_to_current_counterexample:
  "quantity (sampleItem 0) = tb_quantity (sampleRequest ''adjustment'' 0 None)
   \<and> find (\<lambda>i. item_id i = tb_inventory (sampleRequest ''adjustment'' 0 None)
                \<and> school i = user_school sampleUser \<and> isActive i)
         (inventories (sampleDb 0)) = Some (sampleItem 0)
   \<and> createTransaction sampleUser (sampleRequest ''adjustment'' 0 None) (sampleDb 0)
       = (ValidationFailed [''Quantity must be a positive integer''], sampleDb 0)
   \<and> transactions (sampleDb 0) = []"
  by (simp add: createTransaction_def validateTransaction_def transactionTypes_def
      sampleRequest_def sampleDb_def sampleItem_def sampleUser_def Let_def)

section \<open>Accepted quantities\<close>




section \<open>Transfer\<close>

text \<open>
  C10. A request of type \<open>transfer\<close> passes validation under the same conditions as
  the other types (the type chain accepts it), yet it never creates a transaction and
  never changes the store; when it passed validation and the item exists, the answer is
  400 ``Invalid transaction type''.
\<close>

theorem transfer_rejected:
  assumes ty: "tb_type body = ''transfer''"
  shows "((\<exists>b. validateTransaction body = Inr b) \<longleftrightarrow>
            1 \<le> tb_quantity body
            \<and> (case tb_reason body of None \<Rightarrow> True | Some r \<Rightarrow> length (trim r) \<le> 500))
    \<and> snd (createTransaction u body s) = s
    \<and> (\<forall>t. fst (createTransaction u body s) \<noteq> Created t)
    \<and> (validateTransaction body = Inr b
        \<and> find (\<lambda>i. item_id i = tb_inventory body \<and> school i = user_school u \<and> isActive i)
             (inventories s) = Some item
       \<longrightarrow> createTransaction u body s = (InvalidType, s)
           \<and> message (fst (createTransaction u body s)) = ''Invalid transaction type''
           \<and> statusCode (fst (createTransaction u body s)) = 400)"
proof -
  have sw: "switchType ''transfer'' p q x = Inl InvalidType" for p q x
    by (simp add: switchType_def)
  have v: "(\<exists>b. validateTransaction body = Inr b) \<longleftrightarrow>
            1 \<le> tb_quantity body
            \<and> (case tb_reason body of None \<Rightarrow> True | Some r \<Rightarrow> length (trim r) \<le> 500)"
    using ty by (simp add: validateTransaction_Inr transactionTypes_def)
  have b: "tb_type b' = ''transfer''" if "validateTransaction body = Inr b'" for b'
    using that ty by (auto simp: validateTransaction_Inr)
  have r: "snd (createTransaction u body s) = s \<and> (\<forall>t. fst (createTransaction u body s) \<noteq> Created t)"
    using b by (auto simp: createTransaction_def sw split: sum.splits option.splits)
  have i: "createTransaction u body s = (InvalidType, s)"
    if p: "validateTransaction body = Inr b"
      and f: "find (\<lambda>i. item_id i = tb_inventory body \<and> school i = user_school u \<and> isActive i)
             (inventories s) = Some item"
  proof -
    from p have p': "validateTransaction body
                       = Inr (body\<lparr>tb_reason := map_option trim (tb_reason body)\<rparr>)"
      by (simp add: validateTransaction_Inr)
    show ?thesis
      by (simp add: createTransaction_def p' f ty sw)
  qed
  show ?thesis
    using v r i by auto
qed

theorem transfer_rejected_witness:
  "tb_type (sampleRequest ''transfer'' 2 None) = ''transfer''
   \<and> validateTransaction (sampleRequest ''transfer'' 2 None) = Inr (sampleRequest ''transfer'' 2 None)
   \<and> find (\<lambda>i. item_id i = tb_inventory (sampleRequest ''transfer'' 2 None) \<and> school i = user_school sampleUser
                    \<and> isActive i) (inventories (sampleDb 10)) = Some (sampleItem 10)
   \<and> createTransaction sampleUser (sampleRequest ''transfer'' 2 None) (sampleDb 10)
       = (InvalidType, sampleDb 10)"
proof -
  have ty: "tb_type (sampleRequest ''transfer'' 2 None) = ''transfer''"
    by (simp add: sampleRequest_def)
  have v: "validateTransaction (sampleRequest ''transfer'' 2 None) = Inr (sampleRequest ''transfer'' 2 None)"
    by (simp add: validateTransaction_def sampleRequest_def transactionTypes_def)
  have f: "find (\<lambda>i. item_id i = tb_inventory (sampleRequest ''transfer'' 2 None)
                    \<and> school i = user_school sampleUser \<and> isActive i)
             (inventories (sampleDb 10)) = Some (sampleItem 10)"
    by (simp add: sampleRequest_def sampleDb_def sampleItem_def sampleUser_def)
  from transfer_rejected [OF ty, where u = sampleUser and s = "sampleDb 10"
                            and b = "sampleRequest ''transfer'' 2 None"
                            and item = "sampleItem 10"] v f
  have "createTransaction sampleUser (sampleRequest ''transfer'' 2 None) (sampleDb 10)
          = (InvalidType, sampleDb 10)"
    by blast
  with ty v f show ?thesis
    by simp
qed

section \<open>Initial stock\<close>

text \<open>
  C7 (amended). \<open>POST /inventory\<close> creates the item exactly when the body passes
  validation, names a category and the id is new. A created item with a positive quantity
  \<open>q\<close> comes with exactly one appended record: a check-in of the new item with
  previous quantity 0, new quantity \<open>q\<close>, delta \<open>q\<close> and the reason
  ``Initial stock'', with a capital I. A created item with quantity 0 comes with no
  record, and a request that creates nothing appends nothing.
\<close>

theorem initial_stock_transaction:
  "((\<exists>item c. fst (createInventory u oid body s) = ItemCreated item c) \<longleftrightarrow>
      (\<exists>b. validateInventory body = Inr b) \<and> b_category body \<noteq> None
      \<and> oid \<notin> item_id ` set (inventories s))
   \<and> (fst (createInventory u oid body s) = ItemCreated item c \<longrightarrow>
        item_id item = oid \<and> quantity item = b_quantity body \<and> 0 \<le> b_quantity body
        \<and> getItem (snd (createInventory u oid body s)) oid = Some item
        \<and> c = populateCategory s item)
   \<and> (fst (createInventory u oid body s) = ItemCreated item c \<and> 0 < b_quantity body \<longrightarrow>
        (\<exists>t. transactions (snd (createInventory u oid body s)) = transactions s @ [t]
           \<and> tx_type t = ''check-in'' \<and> tx_inventory t = oid
           \<and> previousQuantity t = 0 \<and> newQuantity t = b_quantity body
           \<and> tx_quantity t = b_quantity body \<and> tx_reason t = Some ''Initial stock''))
   \<and> (fst (createInventory u oid body s) = ItemCreated item c \<and> b_quantity body = 0 \<longrightarrow>
        transactions (snd (createInventory u oid body s)) = transactions s)
   \<and> ((\<forall>i k. fst (createInventory u oid body s) \<noteq> ItemCreated i k) \<longrightarrow>
        transactions (snd (createInventory u oid body s)) = transactions s)"
proof -
  have made: "\<exists>i k. fst (createInventory u oid body s) = ItemCreated i k"
    if "\<exists>b. validateInventory body = Inr b" and "b_category body \<noteq> None"
      and "oid \<notin> item_id ` set (inventories s)"
  proof -
    from that(1) obtain b where "validateInventory body = Inr b" ..
    from createInventory_created[OF this that(2,3)] show ?thesis
      by (simp add: Let_def)
  qed
  have rest: "item_id item = oid \<and> quantity item = b_quantity body \<and> 0 \<le> b_quantity body
        \<and> getItem (snd (createInventory u oid body s)) oid = Some item
        \<and> c = populateCategory s item
        \<and> (0 < b_quantity body \<longrightarrow>
            (\<exists>t. transactions (snd (createInventory u oid body s)) = transactions s @ [t]
               \<and> tx_type t = ''check-in'' \<and> tx_inventory t = oid
               \<and> previousQuantity t = 0 \<and> newQuantity t = b_quantity body
               \<and> tx_quantity t = b_quantity body \<and> tx_reason t = Some ''Initial stock''))
        \<and> (b_quantity body = 0 \<longrightarrow>
            transactions (snd (createInventory u oid body s)) = transactions s)"
    if made: "fst (createInventory u oid body s) = ItemCreated item c"
  proof -
    from createInventory_ItemCreatedD[OF made] obtain b where
      v: "validateInventory body = Inr b" and k: "b_category body \<noteq> None"
      and fresh: "oid \<notin> item_id ` set (inventories s)"
      by blast
    note run = createInventory_created[OF v k fresh]
    from v have b: "b = body\<lparr>b_name := trim (b_name body), b_unit := trim (b_unit body)\<rparr>"
      and q: "0 \<le> b_quantity body"
      by (simp_all add: validateInventory_Inr)
    from made have item: "item = newInventory oid (user_school u) b"
      and pop: "c = populateCategory s item"
      by (auto simp: run Let_def)
    have g: "getItem (snd (createInventory u oid body s)) oid = Some item"
      using fresh find_appended[of oid "inventories s" item]
      by (simp add: run Let_def getItem_def item newInventory_def)
    show ?thesis
      using q g pop by (simp add: run Let_def) (simp add: item newInventory_def b)
  qed
  show ?thesis
    using made rest createInventory_ItemCreatedD[of u oid body s]
      createInventory_not_created[of u oid body s]
    by blast
qed

theorem initial_stock_transaction_witness:
  "fst (createInventory sampleUser 2 (sampleBody 10) (sampleDb 4))
     = ItemCreated (sampleItem 10\<lparr>item_id := 2, name := ''Pen'', unit := ''box'', cost := 0\<rparr>)
         (Some \<lparr>cat_id = 3, cat_name = ''Stationery'', cat_color = ''#3B82F6''\<rparr>)
   \<and> (\<exists>t. transactions (snd (createInventory sampleUser 2 (sampleBody 10) (sampleDb 4))) = [t]
          \<and> tx_type t = ''check-in'' \<and> tx_inventory t = 2
          \<and> previousQuantity t = 0 \<and> newQuantity t = 10
          \<and> tx_reason t = Some ''Initial stock'')
   \<and> fst (createInventory sampleUser 2 (sampleBody 0) (sampleDb 4))
     = ItemCreated (sampleItem 0\<lparr>item_id := 2, name := ''Pen'', unit := ''box'', cost := 0\<rparr>)
         (Some \<lparr>cat_id = 3, cat_name = ''Stationery'', cat_color = ''#3B82F6''\<rparr>)
   \<and> transactions (snd (createInventory sampleUser 2 (sampleBody 0) (sampleDb 4))) = []
   \<and> fst (createInventory sampleUser 2 (sampleBody (- 1)) (sampleDb 4))
     = ValidationFailed [''Quantity must be a non-negative integer'']
   \<and> transactions (snd (createInventory sampleUser 2 (sampleBody (- 1)) (sampleDb 4))) = []"
proof -
  let ?c = "Some \<lparr>cat_id = 3, cat_name = ''Stationery'', cat_color = ''#3B82F6''\<rparr>"
  have made: "fst (createInventory sampleUser 2 (sampleBody q) (sampleDb 4))
                = ItemCreated
                    (sampleItem q\<lparr>item_id := 2, name := ''Pen'', unit := ''box'', cost := 0\<rparr>) ?c"
    if "0 \<le> q" for q
    using that
    by (simp add: createInventory_def validateInventory_def newInventory_def insertInventory_def
        validateInventoryDoc_def saveTransaction_def validateTransactionDoc_def
        transactionTypes_def costOrZero_def trim_def isWhitespace_def sampleBody_def
        sampleUser_def sampleItem_def sampleDb_def sampleCategories_def populateCategory_def
        Let_def)
  have failed: "fst (createInventory sampleUser 2 (sampleBody (- 1)) (sampleDb 4))
                  = ValidationFailed [''Quantity must be a non-negative integer'']"
    by (simp add: createInventory_def validateInventory_def trim_def isWhitespace_def
        sampleBody_def Let_def)
  have empty: "transactions (sampleDb 4) = []"
    by (simp add: sampleDb_def)
  have ten: "\<exists>t. transactions (snd (createInventory sampleUser 2 (sampleBody 10) (sampleDb 4))) = [t]
          \<and> tx_type t = ''check-in'' \<and> tx_inventory t = 2
          \<and> previousQuantity t = 0 \<and> newQuantity t = 10
          \<and> tx_reason t = Some ''Initial stock''"
    using made [of 10] empty
      initial_stock_transaction
        [of sampleUser 2 "sampleBody 10" "sampleDb 4"
            "sampleItem 10\<lparr>item_id := 2, name := ''Pen'', unit := ''box'', cost := 0\<rparr>" ?c]
    by (auto simp: sampleBody_def)
  have zero: "transactions (snd (createInventory sampleUser 2 (sampleBody 0) (sampleDb 4))) = []"
    using made [of 0] empty
      initial_stock_transaction
        [of sampleUser 2 "sampleBody 0" "sampleDb 4"
            "sampleItem 0\<lparr>item_id := 2, name := ''Pen'', unit := ''box'', cost := 0\<rparr>" ?c]
    by (simp add: sampleBody_def)
  have none: "transactions (snd (createInventory sampleUser 2 (sampleBody (- 1)) (sampleDb 4))) = []"
    using failed empty
      initial_stock_transaction
        [of sampleUser 2 "sampleBody (- 1)" "sampleDb 4"
            "sampleItem 0\<lparr>item_id := 2, name := ''Pen'', unit := ''box'', cost := 0\<rparr>" ?c]
    by simp
  from made [of 10] made [of 0] failed ten zero none show ?thesis
    by simp
qed

text \<open>
  The claim as stated fails on the reason: the record of an item created with quantity
  10 carries ``Initial stock'', not ``initial stock''.
\<close>

theorem initial_stock_reason_counterexample:
  "transactions (snd (createInventory sampleUser 2 (sampleBody 10) (sampleDb 4)))
     = [\<lparr>tx_type = ''check-in'', tx_inventory = 2, tx_school = 1, tx_user = 7,
         tx_quantity = 10, previousQuantity = 0, newQuantity = 10,
         tx_reason = Some ''Initial stock'', tx_cost = 0\<rparr>]
   \<and> \<not> (\<exists>t. transactions (snd (createInventory sampleUser 2 (sampleBody 10) (sampleDb 4))) = [t]
            \<and> tx_type t = ''check-in'' \<and> previousQuantity t = 0 \<and> newQuantity t = 10
            \<and> tx_reason t = Some ''initial stock'')"
  by (simp add: createInventory_def validateInventory_def newInventory_def insertInventory_def
      validateInventoryDoc_def saveTransaction_def validateTransactionDoc_def
      transactionTypes_def costOrZero_def trim_def isWhitespace_def sampleBody_def
      sampleUser_def sampleItem_def sampleDb_def sampleCategories_def populateCategory_def
      Let_def)

section \<open>The two saves of a transaction\<close>

text \<open>
  C6. \<open>Promise.all([transaction.save(), inventory.save()])\<close> is not one unit. A
  check-in of 5 with cost \<open>-1\<close> against an item holding 10 passes
  \<open>validateTransaction\<close> (which has no chain for the cost); the record's save is
  rejected by the schema (\<open>cost\<close> has \<open>min: 0\<close>), the item's save is not: the
  answer is 500, the item holds 15 and the log has no record of it.
\<close>

theorem negative_cost_partial_write:
  "validateTransaction (sampleRequest ''check-in'' 5 (Some (- 1)))
     = Inr (sampleRequest ''check-in'' 5 (Some (- 1)))
   \<and> createTransaction sampleUser (sampleRequest ''check-in'' 5 (Some (- 1))) (sampleDb 10)
       = (ServerError ''Failed to create transaction'', sampleDb 15)
   \<and> map quantity (inventories (sampleDb 15)) = [15]
   \<and> transactions (sampleDb 15) = []"
  by (simp add: createTransaction_def validateTransaction_def transactionTypes_def
      sampleRequest_def sampleDb_def sampleItem_def sampleUser_def switchType_def
      sentQuantity_def castNumber_def toDouble_def
      saveTransaction_def saveInventory_def validateTransactionDoc_def
      validateInventoryDoc_def Let_def)

section \<open>Transaction records\<close>

text \<open>
  C4. A record can be unbalanced. A check-in whose quantity arrives as the string
  \<open>"5"\<close> passes \<open>validateTransaction\<close> (\<open>isInt\<close> tests the text and converts
  nothing); against an item holding 10, \<open>previousQuantity + quantity\<close> is the text
  \<open>"105"\<close>, so the item is set to 105 and the record says previous 10, quantity 5,
  new 105.
\<close>

theorem string_quantity_unbalanced_record:
  "validateTransaction (sampleStringRequest ''check-in'' 5 None)
     = Inr (sampleStringRequest ''check-in'' 5 None)
   \<and> sentQuantity (sampleStringRequest ''check-in'' 5 None) = JsString ''5''
   \<and> createTransaction sampleUser (sampleStringRequest ''check-in'' 5 None) (sampleDb 10)
       = (Created \<lparr>tx_type = ''check-in'', tx_inventory = 1, tx_school = 1, tx_user = 7,
                   tx_quantity = 5, previousQuantity = 10, newQuantity = 105,
                   tx_reason = None, tx_cost = 0\<rparr>,
          (sampleDb 105)
            \<lparr>transactions :=
               [\<lparr>tx_type = ''check-in'', tx_inventory = 1, tx_school = 1, tx_user = 7,
                  tx_quantity = 5, previousQuantity = 10, newQuantity = 105,
                  tx_reason = None, tx_cost = 0\<rparr>]\<rparr>)
   \<and> \<not> balanced \<lparr>tx_type = ''check-in'', tx_inventory = 1, tx_school = 1, tx_user = 7,
                   tx_quantity = 5, previousQuantity = 10, newQuantity = 105,
                   tx_reason = None, tx_cost = 0\<rparr>"
  by code_simp

section \<open>Category rollup\<close>

text \<open>
  C9 (amended). The category rollup never fails on the division: for every store it
  returns rows, and every row has an item count of at least 1, the average
  \<open>totalValue / itemCount\<close>, and a category that some active item of the school
  carries. A category without active items of the school gets no row at all.
\<close>

theorem category_rollup_average:
  "(\<exists>rows. categoryStats schoolId s = Inr rows)
   \<and> (categoryStats schoolId s = Inr rows \<and> r \<in> set rows \<longrightarrow>
        1 \<le> itemCount r \<and> averageValue r = totalValue r / of_int (itemCount r)
        \<and> (\<exists>i\<in>set (inventories s). school i = schoolId \<and> isActive i \<and> category i = g_id r))
   \<and> (categoryStats schoolId s = Inr rows
        \<and> (\<forall>i\<in>set (inventories s). school i = schoolId \<and> isActive i \<longrightarrow> category i \<noteq> Some c)
       \<longrightarrow> (\<forall>r\<in>set rows. g_id r \<noteq> Some c))"
proof -
  have "\<exists>rows. categoryStats schoolId s = Inr rows"
    using categoryStats_rows[of schoolId s] by blast
  then show ?thesis
    using categoryStats_row[of schoolId s rows] by metis
qed

theorem category_rollup_average_witness:
  "categoryStats 1 (sampleDb 10) = Inr [\<lparr>g_id = Some 3, itemCount = 1, totalQuantity = 10, totalValue = 20,
               lowStockItems = 0, r_name = ''Stationery'', r_color = ''#3B82F6'',
               averageValue = 20\<rparr>]
   \<and> averageValue \<lparr>g_id = Some 3, itemCount = 1, totalQuantity = 10, totalValue = 20,
               lowStockItems = 0, r_name = ''Stationery'', r_color = ''#3B82F6'',
               averageValue = 20\<rparr>
       = totalValue \<lparr>g_id = Some 3, itemCount = 1, totalQuantity = 10, totalValue = 20,
               lowStockItems = 0, r_name = ''Stationery'', r_color = ''#3B82F6'',
               averageValue = 20\<rparr>
         / of_int (itemCount \<lparr>g_id = Some 3, itemCount = 1, totalQuantity = 10, totalValue = 20,
               lowStockItems = 0, r_name = ''Stationery'', r_color = ''#3B82F6'',
               averageValue = 20\<rparr>)
   \<and> list_all (\<lambda>i. category i \<noteq> Some 4) (inventories (sampleDb 10))
   \<and> list_all (\<lambda>r. g_id r \<noteq> Some 4)
        [\<lparr>g_id = Some 3, itemCount = 1, totalQuantity = 10, totalValue = 20,
               lowStockItems = 0, r_name = ''Stationery'', r_color = ''#3B82F6'',
               averageValue = 20\<rparr>]"
proof -
  let ?row = "\<lparr>g_id = Some 3, itemCount = 1, totalQuantity = 10, totalValue = 20,
               lowStockItems = 0, r_name = ''Stationery'', r_color = ''#3B82F6'',
               averageValue = 20\<rparr>"
  have rows: "categoryStats 1 (sampleDb 10) = Inr [?row]"
    by (simp add: categoryStats_def matchStage_def groupStage_def accumulate_def zeroGroup_def
        lookupUnwind_def projectRow_def mongoDivide_def sampleDb_def sampleItem_def
        sampleCategories_def)
  have none: "\<forall>i\<in>set (inventories (sampleDb 10)).
                school i = 1 \<and> isActive i \<longrightarrow> category i \<noteq> Some 4"
    by (simp add: sampleDb_def sampleItem_def)
  note t = category_rollup_average [of 1 "sampleDb 10" "[?row]" ?row 4]
  from t rows have avg: "averageValue ?row = totalValue ?row / of_int (itemCount ?row)"
    by simp
  from t rows none have "\<forall>r\<in>set [?row]. g_id r \<noteq> Some 4"
    by blast
  then have absent: "list_all (\<lambda>r. g_id r \<noteq> Some 4) [?row]"
    by simp
  have "list_all (\<lambda>i. category i \<noteq> Some 4) (inventories (sampleDb 10))"
    by (simp add: sampleDb_def sampleItem_def)
  with rows avg absent show ?thesis
    by blast
qed

text \<open>
  The claim as stated fails: category 4 has no item, and the rollup has no row for it,
  so none with an average of 0; with no item at all the rollup is empty.
\<close>

theorem empty_category_counterexample:
  "find (\<lambda>i. category i = Some 4) (inventories (sampleDb 10)) = None
   \<and> categoryStats 1 (sampleDb 10) = Inr [\<lparr>g_id = Some 3, itemCount = 1, totalQuantity = 10, totalValue = 20,
               lowStockItems = 0, r_name = ''Stationery'', r_color = ''#3B82F6'',
               averageValue = 20\<rparr>]
   \<and> \<not> (\<exists>rows r. categoryStats 1 (sampleDb 10) = Inr rows \<and> r \<in> set rows
            \<and> g_id r = Some 4 \<and> averageValue r = 0)
   \<and> categoryStats 1 (emptyDb\<lparr>categories := sampleCategories\<rparr>) = Inr []"
  by (simp add: categoryStats_def matchStage_def groupStage_def accumulate_def zeroGroup_def
      lookupUnwind_def projectRow_def mongoDivide_def sampleDb_def sampleItem_def
      sampleCategories_def emptyDb_def)

end
